theory Spec2Isabelle
  imports Main "HOL-Library.Word" "HOL-Library.Signed_Division"
begin

section \<open>The Protean PWM-Logger driver (drivers/pwm/pwm-protean-logger.c)\<close>

text \<open>
  C types are modelled on an LP64 target: \<open>int\<close> and \<open>unsigned int\<close> are
  \<open>32 word\<close>, \<open>long\<close> and \<open>unsigned long\<close> are \<open>64 word\<close>. Whether a word
  is read as signed or unsigned is decided where it is used (\<open>scast\<close> and \<open>sint\<close>
  against \<open>ucast\<close> and \<open>unat\<close>), as the usual arithmetic conversions of C do.
  Return codes (0 or a negated errno) take part in no arithmetic and are plain \<open>int\<close>.
\<close>

subsection \<open>Constants and the mode enumeration\<close>


definition PRO_DEV_MAX_CHANNELS :: "32 word" where
  "PRO_DEV_MAX_CHANNELS = 6"

definition PRO_DEV_REG_MODE :: "32 word" where
  "PRO_DEV_REG_MODE = 0x00"

definition PRO_DEV_REG_CH1 :: "32 word" where
  "PRO_DEV_REG_CH1 = 0x01"

definition PRO_COG_FREQ :: "64 word" where
  "PRO_COG_FREQ = 80000000"

definition PRO_NS_SEC :: "64 word" where
  "PRO_NS_SEC = 1000000000"

datatype protean_pwm_mode = PRO_MODE_MEASURE | PRO_MODE_GEN

text \<open>The enumerators' values: \<open>PRO_MODE_MEASURE = 0\<close>, \<open>PRO_MODE_GEN = 1\<close>.\<close>

fun mode_code :: "protean_pwm_mode \<Rightarrow> 32 word" where
  "mode_code PRO_MODE_MEASURE = 0"
| "mode_code PRO_MODE_GEN = 1"

definition EIO :: int where
  "EIO = 5"

definition ENOMEM :: int where
  "ENOMEM = 12"

definition EINVAL :: int where
  "EINVAL = 22"

subsection \<open>The register access tables\<close>

record regmap_range =
  range_min :: "32 word"
  range_max :: "32 word"

definition read_ranges :: "regmap_range list" where
  "read_ranges =
     [\<lparr>range_min = 0x01, range_max = 0x06\<rparr>,
      \<lparr>range_min = 0x0A, range_max = 0x0A\<rparr>,
      \<lparr>range_min = 0x0C, range_max = 0x0C\<rparr>]"

definition write_ranges :: "regmap_range list" where
  "write_ranges =
     [\<lparr>range_min = 0x00, range_max = 0x06\<rparr>,
      \<lparr>range_min = 0x0B, range_max = 0x0B\<rparr>]"

text \<open>
  \<open>n_yes_ranges\<close> and \<open>n_no_ranges\<close> are the lengths of the two lists
  (\<open>sizeof(ranges) / sizeof(struct regmap_range)\<close>).
\<close>

record regmap_access_table =
  yes_ranges :: "regmap_range list"
  no_ranges :: "regmap_range list"

definition read_table :: regmap_access_table where
  "read_table = \<lparr>yes_ranges = read_ranges, no_ranges = write_ranges\<rparr>"

definition write_table :: regmap_access_table where
  "write_table = \<lparr>yes_ranges = write_ranges, no_ranges = read_ranges\<rparr>"

text \<open>
  Modelled from the spec: membership of an address in a declared range. The helper that
  tests a register against a \<open>struct regmap_range\<close> belongs to the regmap subsystem
  and is not part of the driver file; the specification calls the ranges "inclusive
  address ranges".
\<close>

definition regmap_reg_in_range :: "32 word \<Rightarrow> regmap_range \<Rightarrow> bool" where
  "regmap_reg_in_range reg r = (range_min r \<le> reg \<and> reg \<le> range_max r)"

text \<open>
  Modelled from the spec: membership of an address in an array of declared ranges, the
  regmap subsystem's search through the array, which is not part of the driver file.
\<close>

fun regmap_reg_in_ranges :: "32 word \<Rightarrow> regmap_range list \<Rightarrow> bool" where
  "regmap_reg_in_ranges reg [] = False"
| "regmap_reg_in_ranges reg (r # rs) =
     (if regmap_reg_in_range reg r then True else regmap_reg_in_ranges reg rs)"

subsection \<open>The register map handle\<close>

text \<open>
  Every call the driver makes on its register map is recorded, in order.
\<close>

datatype bus_op = Reg_Write "32 word" "32 word" | Reg_Read "32 word"

text \<open>
  Modelled from the spec: the register bus transport behind \<open>struct regmap\<close>
  (\<open>regmap_write\<close>, \<open>regmap_read\<close>), which is not part of the driver file. The
  specification gives it as \<open>write_register(addr, value) -> Result<(), BusError>\<close> and
  \<open>read_register(addr) -> Result<u8, BusError>\<close>, synchronous, one operation per call.
  The transport is any deterministic device: its answer to a request is a function of
  the requests made so far. A write answers with a return code (0 or a negated errno);
  a read answers with \<open>Inl\<close> of a return code, leaving the caller's variable alone, or
  with \<open>Inr\<close> of the 8-bit register value (\<open>val_bits = 8\<close>), stored through the
  pointer with return code 0.
\<close>

record regmap =
  wr_result :: "bus_op list \<Rightarrow> 32 word \<Rightarrow> 32 word \<Rightarrow> int"
  rd_result :: "bus_op list \<Rightarrow> 32 word \<Rightarrow> int + 8 word"
  trace :: "bus_op list"

text \<open>
  Modelled from the spec: \<open>regmap_write\<close>, which is not part of the driver file; the
  specification's \<open>write_register\<close>.
\<close>

definition regmap_write :: "regmap \<Rightarrow> 32 word \<Rightarrow> 32 word \<Rightarrow> int \<times> regmap" where
  "regmap_write m reg val =
     (wr_result m (trace m) reg val, m\<lparr>trace := trace m @ [Reg_Write reg val]\<rparr>)"

text \<open>
  Modelled from the spec: \<open>regmap_read\<close>, which is not part of the driver file; the
  specification's \<open>read_register\<close>. In \<open>regmap_read m reg old\<close>, \<open>old\<close> is what
  the caller's variable held before the call; the second component of the result is
  what it holds afterwards.
\<close>

definition regmap_read :: "regmap \<Rightarrow> 32 word \<Rightarrow> 32 word \<Rightarrow> int \<times> 32 word \<times> regmap" where
  "regmap_read m reg old =
     (case rd_result m (trace m) reg of
        Inl e \<Rightarrow> (e, old, m\<lparr>trace := trace m @ [Reg_Read reg]\<rparr>)
      | Inr v \<Rightarrow> (0, ucast v, m\<lparr>trace := trace m @ [Reg_Read reg]\<rparr>))"

subsection \<open>The controller and the framework's structures\<close>

text \<open>
  Of \<open>struct pwm_chip\<close> the driver sets \<open>npwm\<close> and \<open>base\<close> (besides the pointers
  \<open>ops\<close> and \<open>dev\<close>); of \<open>struct pwm_device\<close> it reads \<open>hwpwm\<close>, an
  \<open>unsigned int\<close>; \<open>struct pwm_capture\<close> has two \<open>unsigned int\<close> fields.
\<close>

record pwm_chip =
  npwm :: "32 word"
  base :: "32 word"

record pwm_device =
  hwpwm :: "32 word"

record pwm_capture =
  period :: "32 word"
  duty_cycle :: "32 word"

datatype pwm_polarity = PWM_POLARITY_NORMAL | PWM_POLARITY_INVERSED

record protean_pwm =
  regmap :: regmap
  chip :: pwm_chip
  mode :: protean_pwm_mode

subsection \<open>The PWM operations\<close>

definition set_polarity :: "protean_pwm \<Rightarrow> pwm_device \<Rightarrow> pwm_polarity \<Rightarrow> int \<times> protean_pwm" where
  "set_polarity pwm dev polarity = (- EINVAL, pwm)"

text \<open>
  \<open>duty_ns\<close> is an \<open>int\<close>; dividing it by the \<open>unsigned long\<close> \<open>denom\<close> converts
  it to \<open>unsigned long\<close> first (sign extension). The product with \<open>10L\<close> and the
  shift are \<open>unsigned long\<close> too.
\<close>

definition write_channel ::
  "protean_pwm \<Rightarrow> pwm_device \<Rightarrow> 32 word \<Rightarrow> 32 word \<Rightarrow> int \<times> protean_pwm" where
  "write_channel pwm dev duty_ns period_ns =
     (let denom = (125 :: 64 word);
          duty_arb = drop_bit 10 (10 * (scast duty_ns div denom))
      in if duty_arb > 255 then (- EINVAL, pwm)
         else (case regmap_write (regmap pwm) (PRO_DEV_REG_CH1 + hwpwm dev) (ucast duty_arb) of
                 (rc, m) \<Rightarrow> (rc, pwm\<lparr>regmap := m\<rparr>)))"

text \<open>
  \<open>duty_arb\<close> is an uninitialised \<open>int\<close> until \<open>regmap_read\<close> stores into it:
  \<open>uninit\<close> is whatever the stack held. The return code of \<open>regmap_read\<close> is
  dropped. \<open>duty_arb << 10\<close> is an \<open>int\<close>, converted to \<open>unsigned long\<close> for the
  product with \<open>denom\<close>; the quotient is truncated to the \<open>unsigned int\<close> field.
  \<open>PRO_NS_SEC / 50\<close> is a division of \<open>long\<close>.
\<close>

definition measure_channel ::
  "protean_pwm \<Rightarrow> pwm_device \<Rightarrow> pwm_capture \<Rightarrow> 64 word \<Rightarrow> 32 word
     \<Rightarrow> int \<times> pwm_capture \<times> protean_pwm" where
  "measure_channel pwm dev result timeout uninit =
     (let denom = (125 :: 64 word)
      in (case regmap_read (regmap pwm) (PRO_DEV_REG_CH1 + hwpwm dev) uninit of
            (rc, duty_arb, m) \<Rightarrow>
              (0,
               result\<lparr>duty_cycle := ucast ((scast (push_bit 10 duty_arb) * denom) div 10),
                      period := word_of_int (sint PRO_NS_SEC sdiv 50)\<rparr>,
               pwm\<lparr>regmap := m\<rparr>)))"

definition enable_pwm_gen :: "protean_pwm \<Rightarrow> pwm_device option \<Rightarrow> int \<times> protean_pwm" where
  "enable_pwm_gen pwm dev =
     (case regmap_write (regmap pwm) PRO_DEV_REG_MODE 1 of
        (rc, m) \<Rightarrow> (rc, pwm\<lparr>regmap := m\<rparr>))"

definition disable_pwm_gen :: "protean_pwm \<Rightarrow> pwm_device option \<Rightarrow> protean_pwm" where
  "disable_pwm_gen pwm dev =
     (case regmap_write (regmap pwm) PRO_DEV_REG_MODE 1 of
        (rc, m) \<Rightarrow> pwm\<lparr>regmap := m\<rparr>)"

subsection \<open>Attach and detach\<close>

text \<open>
  \<open>probe\<close>: \<open>kzalloc_ok\<close> says whether \<open>devm_kzalloc\<close> returned memory,
  \<open>regmap_init\<close> is what \<open>devm_regmap_init_i2c\<close> returned (\<open>Inl\<close> of the
  \<open>PTR_ERR\<close> code, or the handle), \<open>pwmchip_add\<close> is the framework's function.
  The structure comes zeroed from \<open>devm_kzalloc\<close> and \<open>probe\<close> never assigns
  \<open>mode\<close>, so the field holds the enumerator of value 0, \<open>PRO_MODE_MEASURE\<close>.
\<close>

definition probe ::
  "bool \<Rightarrow> int + regmap \<Rightarrow> (pwm_chip \<Rightarrow> int) \<Rightarrow> int \<times> protean_pwm option" where
  "probe kzalloc_ok regmap_init pwmchip_add =
     (if \<not> kzalloc_ok then (- ENOMEM, None)
      else (case regmap_init of
              Inl err \<Rightarrow> (err, None)
            | Inr m \<Rightarrow>
                (let pwm = \<lparr>regmap = m,
                            chip = \<lparr>npwm = PRO_DEV_MAX_CHANNELS, base = PRO_DEV_MAX_CHANNELS\<rparr>,
                            mode = PRO_MODE_MEASURE\<rparr>
                 in (pwmchip_add (chip pwm), Some pwm))))"

text \<open>\<open>remove\<close> calls \<open>disable_pwm_gen\<close> with a null device, then \<open>pwmchip_remove\<close>.\<close>

definition remove :: "(pwm_chip \<Rightarrow> int) \<Rightarrow> protean_pwm \<Rightarrow> int \<times> protean_pwm" where
  "remove pwmchip_remove pwm =
     (let pwm' = disable_pwm_gen pwm None
      in (pwmchip_remove (chip pwm'), pwm'))"

subsection \<open>The operations table\<close>

text \<open>
  A call of the framework through \<open>protean_pwm_ops\<close>: \<open>.config = write_channel\<close>,
  \<open>.capture = measure_channel\<close>, \<open>.enable = enable_pwm_gen\<close>,
  \<open>.disable = disable_pwm_gen\<close>, \<open>.set_polarity = set_polarity\<close>. The result is the
  controller after the call.
\<close>

datatype pwm_call =
    Call_config pwm_device "32 word" "32 word"
  | Call_capture pwm_device pwm_capture "64 word" "32 word"
  | Call_enable "pwm_device option"
  | Call_disable "pwm_device option"
  | Call_set_polarity pwm_device pwm_polarity

fun protean_pwm_ops :: "protean_pwm \<Rightarrow> pwm_call \<Rightarrow> protean_pwm" where
  "protean_pwm_ops pwm (Call_config dev duty_ns period_ns) =
     snd (write_channel pwm dev duty_ns period_ns)"
| "protean_pwm_ops pwm (Call_capture dev result timeout uninit) =
     snd (snd (measure_channel pwm dev result timeout uninit))"
| "protean_pwm_ops pwm (Call_enable dev) = snd (enable_pwm_gen pwm dev)"
| "protean_pwm_ops pwm (Call_disable dev) = disable_pwm_gen pwm dev"
| "protean_pwm_ops pwm (Call_set_polarity dev polarity) = snd (set_polarity pwm dev polarity)"

subsection \<open>Two devices to run the driver on\<close>

text \<open>
  \<open>stored tr reg\<close>: the low byte of the last value written to \<open>reg\<close> in the
  record \<open>tr\<close>, 0 if there was none. \<open>register_file\<close> is a device that accepts every
  write and reads back what was written; \<open>dead_bus\<close> fails every transfer with
  \<open>-EIO\<close>.
\<close>

fun stored_step :: "32 word \<Rightarrow> 8 word \<Rightarrow> bus_op \<Rightarrow> 8 word" where
  "stored_step reg acc (Reg_Write r v) = (if r = reg then ucast v else acc)"
| "stored_step reg acc (Reg_Read r) = acc"

definition stored :: "bus_op list \<Rightarrow> 32 word \<Rightarrow> 8 word" where
  "stored tr reg = foldl (stored_step reg) 0 tr"

fun wr_accept :: "bus_op list \<Rightarrow> 32 word \<Rightarrow> 32 word \<Rightarrow> int" where
  "wr_accept tr reg val = 0"

fun rd_stored :: "bus_op list \<Rightarrow> 32 word \<Rightarrow> int + 8 word" where
  "rd_stored tr reg = Inr (stored tr reg)"

fun wr_fail :: "bus_op list \<Rightarrow> 32 word \<Rightarrow> 32 word \<Rightarrow> int" where
  "wr_fail tr reg val = - EIO"

fun rd_fail :: "bus_op list \<Rightarrow> 32 word \<Rightarrow> int + 8 word" where
  "rd_fail tr reg = Inl (- EIO)"

definition register_file :: regmap where
  "register_file = \<lparr>wr_result = wr_accept, rd_result = rd_stored, trace = []\<rparr>"

definition dead_bus :: regmap where
  "dead_bus = \<lparr>wr_result = wr_fail, rd_result = rd_fail, trace = []\<rparr>"

fun pwmchip_ok :: "pwm_chip \<Rightarrow> int" where
  "pwmchip_ok c = 0"

text \<open>The controller \<open>probe\<close> builds on a register map \<open>m\<close>.\<close>

definition attached :: "regmap \<Rightarrow> protean_pwm" where
  "attached m = \<lparr>regmap = m,
                  chip = \<lparr>npwm = PRO_DEV_MAX_CHANNELS, base = PRO_DEV_MAX_CHANNELS\<rparr>,
                  mode = PRO_MODE_MEASURE\<rparr>"

definition no_capture :: pwm_capture where
  "no_capture = \<lparr>period = 0, duty_cycle = 0\<rparr>"


section \<open>Arithmetic of the duty-cycle conversions\<close>

text \<open>
  The word expressions of \<open>write_channel\<close> and \<open>measure_channel\<close>, read as
  integers.
\<close>

lemma uint_scast_32_64:
  "uint (scast (d :: 32 word) :: 64 word) = sint d mod 18446744073709551616"
proof -
  have "uint (scast d :: 64 word) = sint d mod 2 ^ LENGTH(64)"
    by (simp only: scast_eq uint_word_of_int)
  then show ?thesis by simp
qed

lemma uint_drop10: "uint (drop_bit 10 (w :: 64 word)) = uint w div 1024"
proof -
  have "drop_bit 10 w = w div 1024"
    by (simp add: drop_bit_eq_div)
  moreover have "uint (w div 1024) = uint w div uint (1024 :: 64 word)"
    by (rule uint_div_distrib)
  ultimately show ?thesis by simp
qed

lemma uint_times10: "uint (10 * (w :: 64 word)) = (10 * uint w) mod 18446744073709551616"
proof -
  have "uint (10 * w) = uint (10 :: 64 word) * uint w mod 2 ^ LENGTH(64)"
    by (rule uint_word_ariths)
  then show ?thesis by simp
qed

lemma uint_div125: "uint ((w :: 64 word) div 125) = uint w div 125"
proof -
  have "uint (w div 125) = uint w div uint (125 :: 64 word)"
    by (rule uint_div_distrib)
  then show ?thesis by simp
qed

lemma uint_duty_arb:
  "uint (drop_bit 10 (10 * (scast (d :: 32 word) div (125 :: 64 word)))) =
     (10 * ((sint d mod 18446744073709551616) div 125)) mod 18446744073709551616 div 1024"
  by (simp only: uint_drop10 uint_times10 uint_div125 uint_scast_32_64)

lemma sint32_bounds: "- 2147483648 \<le> sint (d :: 32 word) \<and> sint d < 2147483648"
  using sint_ge [of d] sint_lt [of d] by simp

lemma uint_duty_arb_nonneg:
  assumes "0 \<le> sint (d :: 32 word)"
  shows "uint (drop_bit 10 (10 * (scast d div (125 :: 64 word)))) = (10 * (sint d div 125)) div 1024"
proof -
  have b: "sint d < 2147483648" using sint32_bounds [of d] by simp
  have m: "sint d mod 18446744073709551616 = sint d" using assms b by simp
  have "0 \<le> 10 * (sint d div 125)" using assms by simp
  moreover have "10 * (sint d div 125) < 18446744073709551616" using assms b by linarith
  ultimately have "(10 * (sint d div 125)) mod 18446744073709551616 = 10 * (sint d div 125)"
    by (rule mod_pos_pos_trivial)
  then show ?thesis by (simp only: uint_duty_arb m)
qed

lemma uint_duty_arb_neg:
  assumes "sint (d :: 32 word) < 0"
  shows "255 < uint (drop_bit 10 (10 * (scast d div (125 :: 64 word))))"
proof -
  have b: "- 2147483648 \<le> sint d" using sint32_bounds [of d] by simp
  define u where "u = sint d mod 18446744073709551616"
  have "(sint d + 18446744073709551616) mod 18446744073709551616 = sint d + 18446744073709551616"
    using assms b by (intro mod_pos_pos_trivial) simp_all
  then have "u = sint d + 18446744073709551616"
    unfolding u_def by (simp only: mod_add_self2)
  then have lo: "18446744071562067968 \<le> u" and hi: "u < 18446744073709551616"
    using assms b by simp_all
  define q where "q = u div 125"
  have ql: "147573952572496543 \<le> q" using lo unfolding q_def by linarith
  have qh: "q \<le> 147573952589676412" using hi unfolding q_def by linarith
  have "(10 * q) mod 18446744073709551616 = 10 * q" 
    using ql qh by (intro mod_pos_pos_trivial) simp_all
  moreover have "255 < (10 * q) div 1024" using ql by linarith
  ultimately have "255 < (10 * q) mod 18446744073709551616 div 1024" by (simp only:)
  then show ?thesis by (simp only: uint_duty_arb u_def q_def)
qed


lemma duty_arb_threshold:
  fixes x :: int
  shows "(255 < (10 * (x div 125)) div 1024) = (3276875 \<le> x)"
proof -
  define q where "q = x div 125"
  define r where "r = x mod 125"
  define a where "a = (10 * q) div 1024"
  define s where "s = (10 * q) mod 1024"
  have x: "x = 125 * q + r" unfolding q_def r_def by simp
  have r: "0 \<le> r" "r < 125" unfolding r_def by simp_all
  have q: "10 * q = 1024 * a + s" unfolding a_def s_def by (rule mult_div_mod_eq [symmetric])
  have s: "0 \<le> s" "s < 1024" unfolding s_def by simp_all
  have "(255 < a) = (26215 \<le> q)" using q s by linarith
  also have "\<dots> = (3276875 \<le> x)" using x r by linarith
  finally show ?thesis unfolding a_def q_def .
qed

lemma duty_arb_gt_255_iff:
  "(255 < drop_bit 10 (10 * (scast (d :: 32 word) div (125 :: 64 word))))
     = (sint d < 0 \<or> 3276875 \<le> sint d)"
proof (cases "0 \<le> sint d")
  case True
  have "(255 < (10 * (sint d div 125)) div 1024) = (3276875 \<le> sint d)"
    by (rule duty_arb_threshold)
  with True show ?thesis
    by (simp only: word_less_alt uint_duty_arb_nonneg [OF True]) simp
next
  case False
  then have n: "sint d < 0" by simp
  from uint_duty_arb_neg [OF n] n show ?thesis
    by (simp only: word_less_alt) simp
qed

lemma ucast_duty_arb_nonneg:
  assumes "0 \<le> sint (d :: 32 word)"
  shows "(ucast (drop_bit 10 (10 * (scast d div (125 :: 64 word)))) :: 32 word)
           = word_of_int ((10 * (sint d div 125)) div 1024)"
  by (simp only: ucast_eq uint_duty_arb_nonneg [OF assms])

lemma uint_times125: "uint ((w :: 64 word) * 125) = (uint w * 125) mod 18446744073709551616"
proof -
  have "uint (w * 125) = uint w * uint (125 :: 64 word) mod 2 ^ LENGTH(64)"
    by (rule uint_word_ariths)
  then show ?thesis by simp
qed

lemma uint_div10: "uint ((w :: 64 word) div 10) = uint w div 10"
proof -
  have "uint (w div 10) = uint w div uint (10 :: 64 word)"
    by (rule uint_div_distrib)
  then show ?thesis by simp
qed

lemma uint_ucast_64_32: "uint (ucast (w :: 64 word) :: 32 word) = uint w mod 4294967296"
proof -
  have "uint (ucast w :: 32 word) = uint w mod 2 ^ LENGTH(32)"
    by (simp only: ucast_eq uint_word_of_int)
  then show ?thesis by simp
qed

lemma uint_shl10: "uint (push_bit 10 (w :: 32 word)) = (uint w * 1024) mod 4294967296"
proof -
  have "push_bit 10 w = w * 1024" by (simp add: push_bit_eq_mult)
  moreover have "uint (w * 1024) = uint w * uint (1024 :: 32 word) mod 2 ^ LENGTH(32)"
    by (rule uint_word_ariths)
  ultimately show ?thesis by simp
qed

lemma sint_eq_uint_32:
  assumes "uint (w :: 32 word) < 2147483648"
  shows "sint w = uint w"
proof -
  have "sint w = signed_take_bit (LENGTH(32) - Suc 0) (uint w)" by (rule sint_uint)
  also have "\<dots> = signed_take_bit 31 (uint w)" by simp
  also have "\<dots> = uint w"
  proof (rule signed_take_bit_int_eq_self)
    have "(0::int) \<le> uint w" by simp
    then have "- 2147483648 \<le> uint w" by linarith
    then show "- (2 ^ 31) \<le> uint w" by simp
    show "uint w < 2 ^ 31" using assms by simp
  qed
  finally show ?thesis .
qed

lemma uint_decode:
  "uint (ucast ((scast (push_bit 10 (ucast (v :: 8 word) :: 32 word)) * (125 :: 64 word)) div 10) :: 32 word)
     = uint v * 12800"
proof -
  have v0: "0 \<le> uint v" by simp
  have v1: "uint v < 256" using uint_lt2p [of v] by simp
  have a: "uint (ucast v :: 32 word) = uint v"
    by (rule uint_up_ucast) (simp add: is_up)
  have "(uint v * 1024) mod 4294967296 = uint v * 1024"
    using v0 v1 by (intro mod_pos_pos_trivial) linarith+
  then have b: "uint (push_bit 10 (ucast v :: 32 word)) = uint v * 1024"
    by (simp only: uint_shl10 a)
  have "uint (push_bit 10 (ucast v :: 32 word)) < 2147483648"
    using v1 by (simp only: b)
  then have c: "sint (push_bit 10 (ucast v :: 32 word)) = uint v * 1024"
    by (simp only: sint_eq_uint_32 b)
  have "(uint v * 1024) mod 18446744073709551616 = uint v * 1024"
    using v0 v1 by (intro mod_pos_pos_trivial) linarith+
  then have d: "uint (scast (push_bit 10 (ucast v :: 32 word)) :: 64 word) = uint v * 1024"
    by (simp only: uint_scast_32_64 c)
  have "(uint v * 1024 * 125) mod 18446744073709551616 = uint v * 1024 * 125"
    using v0 v1 by (intro mod_pos_pos_trivial) linarith+
  then have e: "uint (scast (push_bit 10 (ucast v :: 32 word)) * (125 :: 64 word)) = uint v * 1024 * 125"
    by (simp only: uint_times125 d)
  have "uint v * 1024 * 125 div 10 = uint v * 12800" by linarith
  then have f: "uint ((scast (push_bit 10 (ucast v :: 32 word)) * (125 :: 64 word)) div 10) = uint v * 12800"
    by (simp only: uint_div10 e)
  have "(uint v * 12800) mod 4294967296 = uint v * 12800"
    using v0 v1 by (intro mod_pos_pos_trivial) linarith+
  then show ?thesis by (simp only: uint_ucast_64_32 f)
qed

lemma roundtrip_arith:
  fixes x :: int
  assumes "0 \<le> x"
  shows "(10 * (x div 125)) div 1024 * 12800 \<le> x"
    and "x - (10 * (x div 125)) div 1024 * 12800 \<le> 12899"
proof -
  define q where "q = x div 125"
  define r where "r = x mod 125"
  define a where "a = (5 * q) div 512"
  define t where "t = (5 * q) mod 512"
  have x: "x = 125 * q + r" unfolding q_def r_def by simp
  have r: "0 \<le> r" "r < 125" unfolding r_def by simp_all
  have q: "5 * q = 512 * a + t" unfolding a_def t_def by simp
  have t: "0 \<le> t" "t < 512" unfolding t_def by simp_all
  have "(10 * q) div 1024 = (2 * (5 * q)) div (2 * 512)" by simp
  also have "\<dots> = (5 * q) div 512" by (rule div_mult_mult1) simp
  finally have a: "(10 * (x div 125)) div 1024 = a" unfolding a_def q_def .
  show "(10 * (x div 125)) div 1024 * 12800 \<le> x"
    unfolding a using x r q t by linarith
  show "x - (10 * (x div 125)) div 1024 * 12800 \<le> 12899"
    unfolding a using x r q t by linarith
qed

lemma period_value: "(word_of_int (sint PRO_NS_SEC sdiv 50) :: 32 word) = 20000000"
proof -
  have "sint PRO_NS_SEC = 1000000000" by (simp add: PRO_NS_SEC_def)
  then show ?thesis by (simp add: signed_divide_int_def)
qed

section \<open>What each operation does to the bus\<close>

lemma write_channel_reject:
  assumes "sint d < 0 \<or> 3276875 \<le> sint d"
  shows "write_channel pwm dev d p = (- EINVAL, pwm)"
  using assms by (simp add: write_channel_def duty_arb_gt_255_iff)

lemma write_channel_accept:
  assumes "0 \<le> sint d" and "sint d < 3276875"
  shows "write_channel pwm dev d p =
           (wr_result (regmap pwm) (trace (regmap pwm)) (PRO_DEV_REG_CH1 + hwpwm dev)
              (word_of_int ((10 * (sint d div 125)) div 1024)),
            pwm\<lparr>regmap := (regmap pwm)\<lparr>trace := trace (regmap pwm) @
              [Reg_Write (PRO_DEV_REG_CH1 + hwpwm dev)
                 (word_of_int ((10 * (sint d div 125)) div 1024))]\<rparr>\<rparr>)"
proof -
  have "\<not> 255 < drop_bit 10 (10 * (scast d div (125 :: 64 word)))"
    using assms by (simp only: duty_arb_gt_255_iff) simp
  then show ?thesis
    by (simp add: write_channel_def regmap_write_def ucast_duty_arb_nonneg [OF assms(1)])
qed

lemma measure_channel_read:
  assumes "rd_result (regmap pwm) (trace (regmap pwm)) (PRO_DEV_REG_CH1 + hwpwm dev) = Inr v"
  shows "measure_channel pwm dev result timeout uninit =
           (0,
            result\<lparr>duty_cycle := word_of_int (uint v * 12800), period := 20000000\<rparr>,
            pwm\<lparr>regmap := (regmap pwm)\<lparr>trace := trace (regmap pwm) @
              [Reg_Read (PRO_DEV_REG_CH1 + hwpwm dev)]\<rparr>\<rparr>)"
proof -
  have "ucast ((scast (push_bit 10 (ucast v :: 32 word)) * (125 :: 64 word)) div 10)
          = (word_of_int (uint v * 12800) :: 32 word)"
    using uint_decode [of v] by (metis word_of_int_uint)
  then show ?thesis
    using assms by (simp add: measure_channel_def regmap_read_def period_value)
qed

lemma measure_channel_failed_read:
  assumes "rd_result (regmap pwm) (trace (regmap pwm)) (PRO_DEV_REG_CH1 + hwpwm dev) = Inl e"
  shows "measure_channel pwm dev result timeout uninit =
           (0,
            result\<lparr>duty_cycle := ucast ((scast (push_bit 10 uninit) * (125 :: 64 word)) div 10),
                   period := 20000000\<rparr>,
            pwm\<lparr>regmap := (regmap pwm)\<lparr>trace := trace (regmap pwm) @
              [Reg_Read (PRO_DEV_REG_CH1 + hwpwm dev)]\<rparr>\<rparr>)"
  using assms by (simp add: measure_channel_def regmap_read_def period_value)

lemma stored_after_write: "stored (tr @ [Reg_Write reg val]) reg = ucast val"
  by (simp add: stored_def)

lemma mode_write_channel: "mode (snd (write_channel pwm dev d p)) = mode pwm"
  by (simp add: write_channel_def Let_def regmap_write_def)

lemma mode_measure_channel: "mode (snd (snd (measure_channel pwm dev r t u))) = mode pwm"
  by (simp add: measure_channel_def regmap_read_def split: sum.split)

lemma mode_enable_pwm_gen: "mode (snd (enable_pwm_gen pwm dev)) = mode pwm"
  by (simp add: enable_pwm_gen_def regmap_write_def)

lemma mode_disable_pwm_gen: "mode (disable_pwm_gen pwm dev) = mode pwm"
  by (simp add: disable_pwm_gen_def regmap_write_def)

lemma mode_protean_pwm_ops: "mode (protean_pwm_ops pwm c) = mode pwm"
  by (cases c)
     (simp_all add: mode_write_channel mode_measure_channel mode_enable_pwm_gen
        mode_disable_pwm_gen set_polarity_def)

lemma mode_calls: "mode (foldl protean_pwm_ops pwm cs) = mode pwm"
  by (induction cs arbitrary: pwm) (simp_all add: mode_protean_pwm_ops)


lemma enable_pwm_gen_eq:
  "enable_pwm_gen pwm dev =
     (wr_result (regmap pwm) (trace (regmap pwm)) PRO_DEV_REG_MODE 1,
      pwm\<lparr>regmap := (regmap pwm)\<lparr>trace := trace (regmap pwm) @ [Reg_Write PRO_DEV_REG_MODE 1]\<rparr>\<rparr>)"
  by (simp add: enable_pwm_gen_def regmap_write_def)

lemma disable_pwm_gen_eq:
  "disable_pwm_gen pwm dev =
     pwm\<lparr>regmap := (regmap pwm)\<lparr>trace := trace (regmap pwm) @ [Reg_Write PRO_DEV_REG_MODE 1]\<rparr>\<rparr>"
  by (simp add: disable_pwm_gen_def regmap_write_def)

lemma uint_byte_of_small:
  assumes "0 \<le> a" and "a < 256"
  shows "uint (ucast (word_of_int a :: 32 word) :: 8 word) = a"
proof -
  have "a mod 4294967296 = a" using assms by (intro mod_pos_pos_trivial) linarith+
  moreover have "uint (word_of_int a :: 32 word) = a mod 2 ^ LENGTH(32)"
    by (rule uint_word_of_int)
  ultimately have a: "uint (word_of_int a :: 32 word) = a" by simp
  have b: "a mod 256 = a" using assms by (intro mod_pos_pos_trivial) linarith+
  have "(ucast (word_of_int a :: 32 word) :: 8 word) = word_of_int (uint (word_of_int a :: 32 word))"
    by (rule ucast_eq)
  then have "(ucast (word_of_int a :: 32 word) :: 8 word) = word_of_int a"
    by (simp only: a)
  moreover have "uint (word_of_int a :: 8 word) = a mod 2 ^ LENGTH(8)"
    by (rule uint_word_of_int)
  ultimately show ?thesis using b by simp
qed

lemma uint_word32_of_small:
  assumes "0 \<le> a" and "a < 4294967296"
  shows "uint (word_of_int a :: 32 word) = a"
proof -
  have "a mod 4294967296 = a" using assms by (intro mod_pos_pos_trivial) linarith+
  moreover have "uint (word_of_int a :: 32 word) = a mod 2 ^ LENGTH(32)"
    by (rule uint_word_of_int)
  ultimately show ?thesis by simp
qed

lemma duty_arb_small:
  fixes x :: int
  assumes "0 \<le> x" and "x < 3276875"
  shows "0 \<le> (10 * (x div 125)) div 1024" and "(10 * (x div 125)) div 1024 < 256"
proof -
  have "0 \<le> x div 125" using assms(1) by (simp add: pos_imp_zdiv_nonneg_iff)
  then have "0 \<le> 10 * (x div 125)" by simp
  then show "0 \<le> (10 * (x div 125)) div 1024"
    by (rule pos_imp_zdiv_nonneg_iff [THEN iffD2, rotated]) simp
  have "\<not> 255 < (10 * (x div 125)) div 1024"
    using assms(2) by (simp only: duty_arb_threshold)
  then show "(10 * (x div 125)) div 1024 < 256" by linarith
qed

text \<open>
  Writing an encodable duty cycle and capturing it again on a device that reads back
  what was written: the captured value is 12800 times the register value.
\<close>

lemma write_then_measure:
  assumes "0 \<le> sint d" and "sint d < 3276875" and "rd_result (regmap pwm) = rd_stored"
  shows "uint (duty_cycle (fst (snd (measure_channel (snd (write_channel pwm dev d p))
                                      dev result timeout uninit))))
           = (10 * (sint d div 125)) div 1024 * 12800"
proof -
  define a where "a = (10 * (sint d div 125)) div 1024"
  define reg where "reg = PRO_DEV_REG_CH1 + hwpwm dev"
  define pwm' where "pwm' = snd (write_channel pwm dev d p)"
  have a: "0 \<le> a" "a < 256" unfolding a_def using duty_arb_small [OF assms(1,2)] by simp_all
  have w: "pwm' = pwm\<lparr>regmap := (regmap pwm)\<lparr>trace := trace (regmap pwm) @
              [Reg_Write reg (word_of_int a)]\<rparr>\<rparr>"
    unfolding pwm'_def a_def reg_def by (simp add: write_channel_accept [OF assms(1,2)])
  have "rd_result (regmap pwm') (trace (regmap pwm')) (PRO_DEV_REG_CH1 + hwpwm dev)
          = Inr (ucast (word_of_int a :: 32 word))"
    by (simp add: w assms(3) stored_after_write reg_def)
  then have "duty_cycle (fst (snd (measure_channel pwm' dev result timeout uninit)))
               = word_of_int (uint (ucast (word_of_int a :: 32 word) :: 8 word) * 12800)"
    by (simp add: measure_channel_read)
  also have "\<dots> = word_of_int (a * 12800)" by (simp only: uint_byte_of_small [OF a])
  finally have "uint (duty_cycle (fst (snd (measure_channel pwm' dev result timeout uninit))))
                  = uint (word_of_int (a * 12800) :: 32 word)" by simp
  also have "\<dots> = a * 12800" using a by (intro uint_word32_of_small) linarith+
  finally show ?thesis unfolding pwm'_def a_def .
qed


section \<open>The claims\<close>

subsection \<open>Disabling\<close>

text \<open>
  C1. The claim: for every prior mode state \<open>disable\<close> writes the mode register with
  the measure code \<open>PRO_MODE_MEASURE = 0\<close>, and detaching (\<open>remove\<close>) calls it,
  giving exactly one mode-register write with the measure code. The code writes the
  generate code 1 instead: on a freshly attached controller both \<open>disable_pwm_gen\<close>
  and \<open>remove\<close> issue the single write \<open>(PRO_DEV_REG_MODE, 1)\<close>, and the device's
  mode register then holds 1, not the measure code.
\<close>

theorem disable_writes_generate_code:
  "trace (regmap (disable_pwm_gen (attached register_file) None))
     = [Reg_Write PRO_DEV_REG_MODE (mode_code PRO_MODE_GEN)]
   \<and> trace (regmap (snd (remove pwmchip_ok (attached register_file))))
     = [Reg_Write PRO_DEV_REG_MODE (mode_code PRO_MODE_GEN)]
   \<and> stored (trace (regmap (snd (remove pwmchip_ok (attached register_file))))) PRO_DEV_REG_MODE = 1
   \<and> mode_code PRO_MODE_MEASURE = 0"
  by (simp add: remove_def disable_pwm_gen_eq attached_def register_file_def stored_def)

subsection \<open>Round trip of a duty cycle\<close>

text \<open>
  C2, as stated, fails: a duty cycle of 12799 ns is in the representable range, is
  written as register value 0 and captured as 0 ns, 12799 ns away and not within 125 ns.
\<close>

theorem roundtrip_125_counterexample:
  "fst (write_channel (attached register_file) \<lparr>hwpwm = 0\<rparr> 12799 20000000) = 0
   \<and> trace (regmap (snd (write_channel (attached register_file) \<lparr>hwpwm = 0\<rparr> 12799 20000000)))
       = [Reg_Write 1 0]
   \<and> \<not> \<bar>sint (12799 :: 32 word)
          - uint (duty_cycle (fst (snd (measure_channel
              (snd (write_channel (attached register_file) \<lparr>hwpwm = 0\<rparr> 12799 20000000))
              \<lparr>hwpwm = 0\<rparr> no_capture 0 0))))\<bar> \<le> 125"
proof -
  have r: "rd_result (regmap (attached register_file)) = rd_stored"
    by (simp add: attached_def register_file_def)
  have s: "0 \<le> sint (12799 :: 32 word)" "sint (12799 :: 32 word) < 3276875" by simp_all
  have m: "uint (duty_cycle (fst (snd (measure_channel
              (snd (write_channel (attached register_file) \<lparr>hwpwm = 0\<rparr> 12799 20000000))
              \<lparr>hwpwm = 0\<rparr> no_capture 0 0)))) = 0"
    by (simp add: write_then_measure [OF s r])
  have w: "fst (write_channel (attached register_file) \<lparr>hwpwm = 0\<rparr> 12799 20000000) = 0
    \<and> trace (regmap (snd (write_channel (attached register_file) \<lparr>hwpwm = 0\<rparr> 12799 20000000)))
       = [Reg_Write 1 0]"
    by (simp add: write_channel_accept [OF s] attached_def register_file_def PRO_DEV_REG_CH1_def)
  have "\<not> \<bar>sint (12799 :: 32 word) - 0\<bar> \<le> 125" by simp
  with w show ?thesis by (simp only: m) simp
qed

text \<open>
  C2, amended. For every duty cycle in the representable range (0 up to 3276874 ns, the
  values \<open>write_channel\<close> accepts), written to a device that reads back what was
  written and captured again, the captured duty cycle is not larger than the original
  and smaller by at most 12899 ns: one arbitrary unit is 1024 clock cycles, 12800 ns,
  not 125 ns. The shift by 10 drops up to 12775 ns and the division by 125 up to 124 ns.
\<close>

theorem roundtrip_within_one_unit:
  assumes "0 \<le> sint d" and "sint d < 3276875" and "rd_result (regmap pwm) = rd_stored"
  shows "uint (duty_cycle (fst (snd (measure_channel (snd (write_channel pwm dev d p))
                                      dev result timeout uninit)))) \<le> sint d
       \<and> sint d - uint (duty_cycle (fst (snd (measure_channel (snd (write_channel pwm dev d p))
                                      dev result timeout uninit)))) \<le> 12899"
  using roundtrip_arith [OF assms(1)]
  by (simp only: write_then_measure [OF assms])

theorem roundtrip_within_one_unit_witness:
  "0 \<le> sint (38499 :: 32 word) \<and> sint (38499 :: 32 word) < 3276875
   \<and> rd_result (regmap (attached register_file)) = rd_stored
   \<and> uint (duty_cycle (fst (snd (measure_channel
        (snd (write_channel (attached register_file) \<lparr>hwpwm = 2\<rparr> 38499 20000000))
        \<lparr>hwpwm = 2\<rparr> no_capture 0 0)))) \<le> sint (38499 :: 32 word)
   \<and> sint (38499 :: 32 word) - uint (duty_cycle (fst (snd (measure_channel
        (snd (write_channel (attached register_file) \<lparr>hwpwm = 2\<rparr> 38499 20000000))
        \<lparr>hwpwm = 2\<rparr> no_capture 0 0)))) \<le> 12899"
proof -
  have s: "0 \<le> sint (38499 :: 32 word)" "sint (38499 :: 32 word) < 3276875" by simp_all
  have r: "rd_result (regmap (attached register_file)) = rd_stored"
    by (simp add: attached_def register_file_def)
  show ?thesis
    using s r roundtrip_within_one_unit [OF s r, of "\<lparr>hwpwm = 2\<rparr>" 20000000 no_capture 0 0]
    by blast
qed

text \<open>The bound 12899 is attained, at 38499 ns: written as 2, captured as 25600 ns.\<close>

lemma roundtrip_bound_attained:
  "uint (duty_cycle (fst (snd (measure_channel
        (snd (write_channel (attached register_file) \<lparr>hwpwm = 2\<rparr> 38499 20000000))
        \<lparr>hwpwm = 2\<rparr> no_capture 0 0)))) = 25600"
proof -
  have s: "0 \<le> sint (38499 :: 32 word)" "sint (38499 :: 32 word) < 3276875" by simp_all
  have r: "rd_result (regmap (attached register_file)) = rd_stored"
    by (simp add: attached_def register_file_def)
  show ?thesis by (simp add: write_then_measure [OF s r])
qed


subsection \<open>Duty cycles out of range\<close>

text \<open>
  C3, as stated, fails in its figure: a duty cycle of 31875 ns (255 times 125) is not
  rejected. Its encoded value is 2, and \<open>write_channel\<close> writes 2 to the channel
  register and succeeds.
\<close>

theorem write_channel_31875_counterexample:
  "fst (write_channel (attached register_file) \<lparr>hwpwm = 0\<rparr> 31875 20000000) = 0
   \<and> trace (regmap (snd (write_channel (attached register_file) \<lparr>hwpwm = 0\<rparr> 31875 20000000)))
       = [Reg_Write 1 2]
   \<and> - EINVAL \<noteq> 0"
proof -
  have s: "0 \<le> sint (31875 :: 32 word)" "sint (31875 :: 32 word) < 3276875" by simp_all
  show ?thesis
    by (simp add: write_channel_accept [OF s] attached_def register_file_def
          PRO_DEV_REG_CH1_def EINVAL_def)
qed

text \<open>
  C3, amended. For every \<open>duty_ns\<close> whose encoded arbitrary-unit value exceeds 255,
  \<open>write_channel\<close> fails with \<open>-EINVAL\<close> and leaves the controller and the record
  of bus calls as they were: nothing is written and nothing is clamped. With the
  constant 125 and the shift by 10 these are exactly the inputs of 3276875 ns or more
  and the negative ones. The encoded value of 0 is 0, which is written to the channel
  register.
\<close>

theorem write_channel_out_of_range:
  "(255 < drop_bit 10 (10 * (scast d div (125 :: 64 word)))
      \<longrightarrow> write_channel pwm dev d p = (- EINVAL, pwm))
   \<and> (255 < drop_bit 10 (10 * (scast d div (125 :: 64 word))))
       = (sint d < 0 \<or> 3276875 \<le> sint d)
   \<and> drop_bit 10 (10 * (scast (0 :: 32 word) div (125 :: 64 word))) = 0
   \<and> trace (regmap (snd (write_channel pwm dev 0 p)))
       = trace (regmap pwm) @ [Reg_Write (PRO_DEV_REG_CH1 + hwpwm dev) 0]"
proof -
  have z: "0 \<le> sint (0 :: 32 word)" "sint (0 :: 32 word) < 3276875" by simp_all
  have "trace (regmap (snd (write_channel pwm dev 0 p)))
          = trace (regmap pwm) @ [Reg_Write (PRO_DEV_REG_CH1 + hwpwm dev) 0]"
    by (simp add: write_channel_accept [OF z])
  moreover have "drop_bit 10 (10 * (scast (0 :: 32 word) div (125 :: 64 word))) = 0"
    by simp
  moreover have "255 < drop_bit 10 (10 * (scast d div (125 :: 64 word)))
      \<longrightarrow> write_channel pwm dev d p = (- EINVAL, pwm)"
    by (simp add: duty_arb_gt_255_iff write_channel_reject)
  ultimately show ?thesis
    by (simp only: duty_arb_gt_255_iff simp_thms)
qed

theorem write_channel_out_of_range_witness:
  "255 < drop_bit 10 (10 * (scast (3276875 :: 32 word) div (125 :: 64 word)))
   \<and> write_channel (attached register_file) \<lparr>hwpwm = 0\<rparr> 3276875 20000000
       = (- EINVAL, attached register_file)"
proof -
  have "sint (3276875 :: 32 word) < 0 \<or> 3276875 \<le> sint (3276875 :: 32 word)" by simp
  then show ?thesis
    using write_channel_out_of_range
      [of 3276875 "attached register_file" "\<lparr>hwpwm = 0\<rparr>" 20000000]
    by blast
qed

subsection \<open>A failed register read\<close>

text \<open>
  C4. The claim: when the register read fails, \<open>measure_channel\<close> hands the bus error
  to its caller. The code drops the return code of \<open>regmap_read\<close>: on a bus whose
  transfers all fail with \<open>-EIO\<close>, the read returns \<open>-EIO\<close>, yet
  \<open>measure_channel\<close> returns 0 and reports a duty cycle computed from the
  uninitialised \<open>duty_arb\<close> (7 here, giving 89600 ns). \<open>write_channel\<close> on the same
  bus returns the \<open>-EIO\<close> of \<open>regmap_write\<close>.
\<close>

theorem measure_channel_drops_bus_error:
  "fst (regmap_read (regmap (attached dead_bus)) (PRO_DEV_REG_CH1 + hwpwm \<lparr>hwpwm = 0\<rparr>) 7) = - EIO
   \<and> fst (measure_channel (attached dead_bus) \<lparr>hwpwm = 0\<rparr> no_capture 0 7) = 0
   \<and> fst (snd (measure_channel (attached dead_bus) \<lparr>hwpwm = 0\<rparr> no_capture 0 7))
       = \<lparr>period = 20000000, duty_cycle = 89600\<rparr>
   \<and> fst (write_channel (attached dead_bus) \<lparr>hwpwm = 0\<rparr> 0 20000000) = - EIO
   \<and> - EIO \<noteq> 0"
proof -
  have r: "rd_result (regmap (attached dead_bus)) (trace (regmap (attached dead_bus)))
             (PRO_DEV_REG_CH1 + hwpwm \<lparr>hwpwm = 0\<rparr>) = Inl (- EIO)"
    by (simp add: attached_def dead_bus_def)
  have z: "0 \<le> sint (0 :: 32 word)" "sint (0 :: 32 word) < 3276875" by simp_all
  have d: "(ucast ((scast (push_bit 10 (7 :: 32 word)) * (125 :: 64 word)) div 10) :: 32 word) = 89600"
    by simp
  have "fst (regmap_read (regmap (attached dead_bus)) (PRO_DEV_REG_CH1 + hwpwm \<lparr>hwpwm = 0\<rparr>) 7) = - EIO"
    by (simp add: regmap_read_def attached_def dead_bus_def)
  moreover have "fst (write_channel (attached dead_bus) \<lparr>hwpwm = 0\<rparr> 0 20000000) = - EIO"
    by (simp add: write_channel_accept [OF z] attached_def dead_bus_def)
  moreover have "measure_channel (attached dead_bus) \<lparr>hwpwm = 0\<rparr> no_capture 0 7
      = (0, \<lparr>period = 20000000, duty_cycle = 89600\<rparr>,
         (attached dead_bus)\<lparr>regmap := (regmap (attached dead_bus))\<lparr>trace :=
            trace (regmap (attached dead_bus)) @ [Reg_Read (PRO_DEV_REG_CH1 + hwpwm \<lparr>hwpwm = 0\<rparr>)]\<rparr>\<rparr>)"
    by (simp only: measure_channel_failed_read [OF r] d) (simp add: no_capture_def)
  ultimately show ?thesis by (simp add: EIO_def)
qed


subsection \<open>Channel indices\<close>




subsection \<open>The access tables\<close>

text \<open>
  C6. The claim: no register address is in both the yes-ranges and the no-ranges of a
  table. The code gives each table the other direction's ranges as its no-ranges, and
  the channel registers are in \<open>read_ranges\<close> and in \<open>write_ranges\<close>: address
  \<open>0x01\<close> is in the yes-ranges and in the no-ranges of \<open>read_table\<close>, and of
  \<open>write_table\<close>. These are the registers \<open>measure_channel\<close> reads and
  \<open>write_channel\<close> writes.
\<close>

theorem access_tables_conflict:
  "regmap_reg_in_ranges 0x01 (yes_ranges read_table)
   \<and> regmap_reg_in_ranges 0x01 (no_ranges read_table)
   \<and> regmap_reg_in_ranges 0x01 (yes_ranges write_table)
   \<and> regmap_reg_in_ranges 0x01 (no_ranges write_table)
   \<and> PRO_DEV_REG_CH1 + hwpwm \<lparr>hwpwm = 0\<rparr> = 0x01"
  by (simp add: read_table_def write_table_def read_ranges_def write_ranges_def
        regmap_reg_in_range_def PRO_DEV_REG_CH1_def)


subsection \<open>Enabling\<close>

text \<open>
  C7, as stated, fails: \<open>enable\<close> does not move the controller's mode to GENERATE.
  On a freshly attached controller the call succeeds and the \<open>mode\<close> field is still
  \<open>PRO_MODE_MEASURE\<close>.
\<close>

theorem enable_mode_counterexample:
  "fst (enable_pwm_gen (attached register_file) None) = 0
   \<and> mode (snd (enable_pwm_gen (attached register_file) None)) \<noteq> PRO_MODE_GEN"
  by (simp add: enable_pwm_gen_eq attached_def register_file_def)

text \<open>
  C7, amended. Every \<open>enable\<close> call issues exactly one write to the mode register
  with the generate code \<open>PRO_MODE_GEN = 1\<close> and returns the bus's return code; the
  controller's \<open>mode\<close> field is left as it was. A second \<open>enable\<close> issues the same
  write once more, returns the bus's return code for it, and again leaves the
  \<open>mode\<close> field as it was.
\<close>

theorem enable_writes_generate_code:
  "trace (regmap (snd (enable_pwm_gen pwm dev)))
     = trace (regmap pwm) @ [Reg_Write PRO_DEV_REG_MODE (mode_code PRO_MODE_GEN)]
   \<and> fst (enable_pwm_gen pwm dev)
     = wr_result (regmap pwm) (trace (regmap pwm)) PRO_DEV_REG_MODE (mode_code PRO_MODE_GEN)
   \<and> mode (snd (enable_pwm_gen pwm dev)) = mode pwm
   \<and> trace (regmap (snd (enable_pwm_gen (snd (enable_pwm_gen pwm dev)) dev')))
     = trace (regmap pwm) @ [Reg_Write PRO_DEV_REG_MODE (mode_code PRO_MODE_GEN),
                              Reg_Write PRO_DEV_REG_MODE (mode_code PRO_MODE_GEN)]
   \<and> fst (enable_pwm_gen (snd (enable_pwm_gen pwm dev)) dev')
     = wr_result (regmap pwm)
         (trace (regmap pwm) @ [Reg_Write PRO_DEV_REG_MODE (mode_code PRO_MODE_GEN)])
         PRO_DEV_REG_MODE (mode_code PRO_MODE_GEN)
   \<and> mode (snd (enable_pwm_gen (snd (enable_pwm_gen pwm dev)) dev')) = mode pwm"
  by (simp add: enable_pwm_gen_eq)

subsection \<open>Polarity\<close>

text \<open>
  C8. For every channel and every polarity value, \<open>set_polarity\<close> fails (with
  \<open>-EINVAL\<close>, the driver's code for an unsupported request) and has no side effect:
  the controller, with its register map and the record of bus calls, is returned as it
  was.
\<close>

theorem set_polarity_unsupported:
  "set_polarity pwm dev polarity = (- EINVAL, pwm) \<and> - EINVAL < 0
     \<and> trace (regmap (snd (set_polarity pwm dev polarity))) = trace (regmap pwm)"
  by (simp add: set_polarity_def EINVAL_def)

subsection \<open>The captured period\<close>

text \<open>
  C9. Every \<open>measure_channel\<close> call, on a valid channel as on any other, returns 0
  and a period of 20000000 ns, whatever the device answers to the register read and
  whatever the capture structure and the stack held before.
\<close>

theorem capture_period_fixed:
  "period (fst (snd (measure_channel pwm dev result timeout uninit))) = 20000000
   \<and> unat (period (fst (snd (measure_channel pwm dev result timeout uninit)))) = 20000000
   \<and> fst (measure_channel pwm dev result timeout uninit) = 0"
  by (simp add: measure_channel_def regmap_read_def period_value split: sum.split)

subsection \<open>The mode field\<close>

text \<open>
  C10. The \<open>mode\<close> field of a controller that \<open>probe\<close> has built is
  \<open>PRO_MODE_MEASURE\<close>, and it still is after any sequence of calls through the
  operations table (configure, capture, enable, disable, set_polarity, with any
  arguments) and after \<open>remove\<close>: no operation assigns the field.
\<close>

theorem mode_field_never_modified:
  assumes "probe kzalloc_ok regmap_init pwmchip_add = (rc, Some pwm)"
  shows "mode pwm = PRO_MODE_MEASURE
       \<and> mode (protean_pwm_ops pwm c) = PRO_MODE_MEASURE
       \<and> mode (foldl protean_pwm_ops pwm cs) = PRO_MODE_MEASURE
       \<and> mode (snd (remove pwmchip_remove (foldl protean_pwm_ops pwm cs))) = PRO_MODE_MEASURE"
proof -
  have "mode pwm = PRO_MODE_MEASURE"
    using assms by (auto simp: probe_def Let_def split: if_splits sum.splits)
  then show ?thesis
    by (simp add: mode_protean_pwm_ops mode_calls remove_def Let_def mode_disable_pwm_gen)
qed

theorem mode_field_never_modified_witness:
  "probe True (Inr register_file) pwmchip_ok = (0, Some (attached register_file))
   \<and> mode (foldl protean_pwm_ops (attached register_file)
        [Call_enable None,
         Call_config \<lparr>hwpwm = 0\<rparr> 1500000 20000000,
         Call_capture \<lparr>hwpwm = 0\<rparr> no_capture 0 0,
         Call_set_polarity \<lparr>hwpwm = 0\<rparr> PWM_POLARITY_INVERSED,
         Call_disable None]) = PRO_MODE_MEASURE
   \<and> mode (snd (remove pwmchip_ok (foldl protean_pwm_ops (attached register_file)
        [Call_enable None,
         Call_config \<lparr>hwpwm = 0\<rparr> 1500000 20000000,
         Call_capture \<lparr>hwpwm = 0\<rparr> no_capture 0 0,
         Call_set_polarity \<lparr>hwpwm = 0\<rparr> PWM_POLARITY_INVERSED,
         Call_disable None]))) = PRO_MODE_MEASURE"
proof -
  have p: "probe True (Inr register_file) pwmchip_ok = (0, Some (attached register_file))"
    by (simp add: probe_def attached_def)
  show ?thesis
    using p mode_field_never_modified [OF p] by blast
qed


end
